theory Spec2Isabelle
  imports Complex_Main "HOL-Library.Log_Nat"
begin

section \<open>JavaScript numbers\<close>

text \<open>
  A finite JavaScript number is an IEEE-754 double; here it is the real number it denotes.
  Every arithmetic operation and every decimal literal of the source rounds its exact
  result to the nearest double, ties to the even significand: \<open>fl\<close>. The spacing of the
  doubles around \<open>a\<close> is \<open>2 ^ ulp_exp a / 2 ^ emin\<close>: 53 significant bits, and the fixed
  spacing \<open>2 ^ - 1074\<close> of the subnormal range. Overflow to Infinity is not modelled: no
  operation of the scoring code leaves the interval from -2 to 2.
\<close>

definition rne :: "real \<Rightarrow> int" where
  "rne x = (let f = \<lfloor>x\<rfloor>; d = x - of_int f in
            if d < 1/2 then f else if 1/2 < d then f + 1
            else if even f then f else f + 1)"

definition emin :: nat where
  "emin = 1074"

definition ulp_exp :: "real \<Rightarrow> nat" where
  "ulp_exp a = nat (bitlen \<lfloor>a * 2 ^ emin\<rfloor> - 53)"

definition fl :: "real \<Rightarrow> real" where
  "fl x = (let a = \<bar>x\<bar>; q = 2 ^ ulp_exp a / 2 ^ emin
           in sgn x * of_int (rne (a / q)) * q)"

text \<open>
  The value of a property read from a record: a finite number, one of the three
  non-finite numbers, or \<open>Undefined\<close> when the property is missing.
\<close>

datatype jsval = Num real | NaN | PosInf | NegInf | Undefined

text \<open>
  The relational operators convert both operands to numbers (\<open>undefined\<close> becomes NaN)
  and are false as soon as one of them is NaN.
\<close>

fun toNumber :: "jsval \<Rightarrow> jsval" where
  "toNumber Undefined = NaN"
| "toNumber v = v"

fun num_lt :: "jsval \<Rightarrow> jsval \<Rightarrow> bool" where
  "num_lt (Num a) (Num b) = (a < b)"
| "num_lt (Num a) PosInf = True"
| "num_lt NegInf (Num b) = True"
| "num_lt NegInf PosInf = True"
| "num_lt _ _ = False"

definition js_lt :: "jsval \<Rightarrow> jsval \<Rightarrow> bool" where
  "js_lt x y = num_lt (toNumber x) (toNumber y)"

definition js_gt :: "jsval \<Rightarrow> jsval \<Rightarrow> bool" where
  "js_gt x y = num_lt (toNumber y) (toNumber x)"

section \<open>The data model\<close>

text \<open>The interface \<open>TurbineParameters\<close> (components/ParameterControls).\<close>

record TurbineParameters =
  generatorPower :: jsval
  voltage :: jsval
  current :: jsval
  frequency :: jsval
  powerFactor :: jsval
  windSpeed :: jsval
  windDirection :: jsval
  turbulenceIntensity :: jsval
  airDensity :: jsval
  temperature :: jsval
  pressure :: jsval
  humidity :: jsval
  tipSpeedRatio :: jsval
  coefficientPerformance :: jsval
  powerCurve :: jsval
  capacityFactor :: jsval
  cutInWindSpeed :: jsval
  ratedWindSpeed :: jsval
  cutOutWindSpeed :: jsval
  brakingSystemType :: string
  vibrationLevels :: jsval
  componentTemperatures :: jsval
  gearboxOilCondition :: jsval
  noiseLevels :: jsval
  towerType :: string
  materialProperties :: jsval
  foundationType :: string

text \<open>
  \<open>defaultParameters\<close> of pages/Dashboard.tsx: the nominal record. A literal that is a
  double (12.5, 7.5, 3.5 and the whole numbers) stands for itself; any other literal is
  rounded.
\<close>

definition defaultParameters :: TurbineParameters where
  "defaultParameters = \<lparr>
     generatorPower = Num 2500,
     voltage = Num 690,
     current = Num 2100,
     frequency = Num 50,
     powerFactor = Num (fl (95/100)),
     windSpeed = Num (25/2),
     windDirection = Num 180,
     turbulenceIntensity = Num 15,
     airDensity = Num (fl (1225/1000)),
     temperature = Num 20,
     pressure = Num 1013,
     humidity = Num 65,
     tipSpeedRatio = Num (15/2),
     coefficientPerformance = Num (fl (45/100)),
     powerCurve = Num 85,
     capacityFactor = Num 35,
     cutInWindSpeed = Num (7/2),
     ratedWindSpeed = Num 12,
     cutOutWindSpeed = Num 25,
     brakingSystemType = ''aerodynamic'',
     vibrationLevels = Num 25,
     componentTemperatures = Num 65,
     gearboxOilCondition = Num 85,
     noiseLevels = Num 45,
     towerType = ''tubular'',
     materialProperties = Num 95,
     foundationType = ''gravity'' \<rparr>"

datatype label = Normal | Warning | Fault

text \<open>
  The interface \<open>PredictionResponse\<close> of services/api.ts. \<open>shapValues\<close> is an object
  with string keys: an association list in the order the keys are written.
\<close>

record PredictionResponse =
  prediction :: label
  probability :: real
  confidence :: real
  affectedComponents :: "string list"
  shapValues :: "(string \<times> real) list"
  timestamp :: string

section \<open>The scoring engine: \<open>mockPrediction\<close>\<close>

text \<open>
  One threshold rule of \<open>mockPrediction\<close>: \<open>if (c) { faultScore += w; affectedComponents.push(...) }\<close>
  on the pair of the two local variables.
\<close>

definition rule :: "bool \<Rightarrow> real \<Rightarrow> string list \<Rightarrow> real \<times> string list \<Rightarrow> real \<times> string list" where
  "rule fired w components st =
     (if fired then (fl (fst st + w), snd st @ components) else st)"

definition vibrationRule :: "TurbineParameters \<Rightarrow> bool" where
  "vibrationRule parameters = js_gt (vibrationLevels parameters) (Num 70)"

definition temperatureRule :: "TurbineParameters \<Rightarrow> bool" where
  "temperatureRule parameters = js_gt (componentTemperatures parameters) (Num 90)"

definition windRule :: "TurbineParameters \<Rightarrow> bool" where
  "windRule parameters =
     (js_gt (windSpeed parameters) (Num 25) \<or> js_lt (windSpeed parameters) (Num 3))"

definition powerFactorRule :: "TurbineParameters \<Rightarrow> bool" where
  "powerFactorRule parameters = js_lt (powerFactor parameters) (Num (fl (85/100)))"

definition oilRule :: "TurbineParameters \<Rightarrow> bool" where
  "oilRule parameters = js_lt (gearboxOilCondition parameters) (Num 30)"

text \<open>Lines 23 to 50: the accumulator \<open>faultScore\<close> and the array \<open>affectedComponents\<close>.\<close>

definition scoreRules :: "TurbineParameters \<Rightarrow> real \<times> string list" where
  "scoreRules parameters =
     (let st = (0, []);
          st = rule (vibrationRule parameters) (fl (3/10)) [''Gearbox'', ''Bearings''] st;
          st = rule (temperatureRule parameters) (fl (25/100)) [''Generator'', ''Power Electronics''] st;
          st = rule (windRule parameters) (fl (2/10)) [''Rotor'', ''Control System''] st;
          st = rule (powerFactorRule parameters) (fl (15/100)) [''Power Electronics''] st;
          st = rule (oilRule parameters) (fl (1/10)) [''Gearbox''] st
      in st)"

definition faultScore :: "TurbineParameters \<Rightarrow> real" where
  "faultScore parameters = fst (scoreRules parameters)"

text \<open>Lines 52 to 60: the label.\<close>

definition classify :: "real \<Rightarrow> label" where
  "classify s = (if s > fl (6/10) then Fault else if s > fl (3/10) then Warning else Normal)"

text \<open>
  \<open>[...new Set(xs)]\<close>: a Set keeps the order of first insertion and ignores a value it
  already holds.
\<close>

definition setOrder :: "string list \<Rightarrow> string list" where
  "setOrder xs = foldl (\<lambda>acc x. if x \<in> set acc then acc else acc @ [x]) [] xs"

text \<open>
  Lines 62 to 71: the mock SHAP values. \<open>rnd i\<close> is the result of the \<open>i\<close>-th call of
  \<open>Math.random()\<close> made by \<open>mockPrediction\<close>, counted from 0.
\<close>

definition mockShapValues :: "TurbineParameters \<Rightarrow> (nat \<Rightarrow> real) \<Rightarrow> (string \<times> real) list" where
  "mockShapValues parameters rnd =
     [(''vibrationLevels'', if vibrationRule parameters then fl (15/100) else - fl (5/100)),
      (''componentTemperatures'', if temperatureRule parameters then fl (12/100) else - fl (3/100)),
      (''windSpeed'', if windRule parameters then fl (1/10) else - fl (2/100)),
      (''powerFactor'', if powerFactorRule parameters then fl (8/100) else - fl (1/100)),
      (''gearboxOilCondition'', if oilRule parameters then fl (6/100) else - fl (1/100)),
      (''generatorPower'', fl (fl (rnd 0 * fl (4/100)) - fl (2/100))),
      (''frequency'', fl (fl (rnd 1 * fl (2/100)) - fl (1/100)))]"

text \<open>
  \<open>mockPrediction\<close> itself; \<open>now\<close> is what \<open>new Date().toISOString()\<close> returns at the call.
\<close>

definition mockPrediction :: "TurbineParameters \<Rightarrow> (nat \<Rightarrow> real) \<Rightarrow> string \<Rightarrow> PredictionResponse" where
  "mockPrediction parameters rnd now =
     \<lparr> prediction = classify (faultScore parameters),
       probability = min (fl (faultScore parameters + fl (rnd 2 * fl (1/10)))) 1,
       confidence = fl (fl (85/100) + fl (rnd 3 * fl (1/10))),
       affectedComponents = setOrder (snd (scoreRules parameters)),
       shapValues = mockShapValues parameters rnd,
       timestamp = now \<rparr>"

section \<open>The dispatcher: \<open>turbineApi.predict\<close>\<close>

text \<open>
  What the HTTP request ends with: a response with a status code and a body, no response
  within the 10000 ms of the \<open>timeout\<close> option, or no connection. \<open>axios_post\<close> is the
  library's default behaviour: the promise is fulfilled for a status from 200 to 299 and
  rejected otherwise.
\<close>

datatype http_result = Response nat PredictionResponse | NoResponseInTime | ConnectionFailed

datatype remote_error = BadStatus nat | Timeout | NetworkError

definition axios_post :: "http_result \<Rightarrow> remote_error + PredictionResponse" where
  "axios_post h =
     (case h of
        Response status body \<Rightarrow>
          (if 200 \<le> status \<and> status < 300 then Inr body else Inl (BadStatus status))
      | NoResponseInTime \<Rightarrow> Inl Timeout
      | ConnectionFailed \<Rightarrow> Inl NetworkError)"

datatype js_error = TypeError

text \<open>How a promise settles.\<close>

datatype 'a settled = Resolved 'a | Rejected js_error

text \<open>
  \<open>predict\<close> returns the number of milliseconds it waits by \<open>setTimeout\<close> once the
  request has ended, and how its promise settles. \<open>rnd\<close> and \<open>now\<close> are the random source
  and the clock read by \<open>mockPrediction\<close> when the timer fires.
\<close>

definition predict ::
  "http_result \<Rightarrow> TurbineParameters \<Rightarrow> (nat \<Rightarrow> real) \<Rightarrow> string \<Rightarrow> nat \<times> PredictionResponse settled" where
  "predict h parameters rnd now =
     (case axios_post h of
        Inr data \<Rightarrow> (0, Resolved data)
      | Inl error \<Rightarrow> (1500, Resolved (mockPrediction parameters rnd now)))"

section \<open>The dashboard: history, export and the sampling loop\<close>

text \<open>The interface \<open>PredictionHistory\<close> of components/RealTimeDashboard.tsx.\<close>

record PredictionHistory =
  entry_id :: string
  entry_timestamp :: string
  entry_prediction :: label
  entry_probability :: real
  entry_confidence :: real
  entry_parameters :: TurbineParameters

text \<open>
  The state of the component (its four \<open>useState\<close> cells) together with the part of the
  browser it acts on: the interval timers that are live, the next timer handle that
  \<open>setInterval\<close> will return, and the titles of the toasts shown.
\<close>

record RealTimeDashboard =
  isRealTimeMode :: bool
  predictionHistory :: "PredictionHistory list"
  lastPrediction :: "PredictionResponse option"
  intervalId :: "nat option"
  activeIntervals :: "nat set"
  nextHandle :: nat
  toasts :: "string list"

definition initialDashboard :: RealTimeDashboard where
  "initialDashboard = \<lparr> isRealTimeMode = False, predictionHistory = [], lastPrediction = None,
     intervalId = None, activeIntervals = {}, nextHandle = 1, toasts = [] \<rparr>"

text \<open>Decimal digits of a natural number, as \<open>Number.prototype.toString\<close> writes them.\<close>

definition digitChar :: "nat \<Rightarrow> char" where
  "digitChar d = ''0123456789'' ! d"

fun digits :: "nat \<Rightarrow> string" where
  "digits n = (if n < 10 then [digitChar n] else digits (n div 10) @ [digitChar (n mod 10)])"

declare digits.simps [simp del]

text \<open>The updater given to \<open>setPredictionHistory\<close>: \<open>prev => [historyEntry, ...prev.slice(0, 49)]\<close>.\<close>

definition pushHistory :: "PredictionHistory \<Rightarrow> PredictionHistory list \<Rightarrow> PredictionHistory list" where
  "pushHistory entry prev = entry # take 49 prev"

text \<open>
  \<open>runPrediction\<close>, from the point where the promise of \<open>turbineApi.predict\<close> has settled;
  \<open>nowMs\<close> is \<open>Date.now()\<close> and \<open>nowIso\<close> is \<open>new Date().toISOString()\<close> at that point.
\<close>

definition historyEntry ::
  "PredictionResponse \<Rightarrow> TurbineParameters \<Rightarrow> nat \<Rightarrow> string \<Rightarrow> PredictionHistory" where
  "historyEntry result params nowMs nowIso =
     \<lparr> entry_id = digits nowMs,
       entry_timestamp = nowIso,
       entry_prediction = prediction result,
       entry_probability = probability result,
       entry_confidence = confidence result,
       entry_parameters = params \<rparr>"

definition runPrediction ::
  "PredictionResponse settled \<Rightarrow> TurbineParameters \<Rightarrow> nat \<Rightarrow> string \<Rightarrow> RealTimeDashboard \<Rightarrow> RealTimeDashboard" where
  "runPrediction outcome params nowMs nowIso s =
     (case outcome of
        Resolved result \<Rightarrow>
          s\<lparr> lastPrediction := Some result,
             predictionHistory :=
               pushHistory (historyEntry result params nowMs nowIso) (predictionHistory s) \<rparr>
      | Rejected error \<Rightarrow> s)"

text \<open>
  A run of successful predictions, oldest first: each is the response, the record it was
  computed from and the two clock readings.
\<close>

type_synonym call = "PredictionResponse \<times> TurbineParameters \<times> nat \<times> string"

definition entryOf :: "call \<Rightarrow> PredictionHistory" where
  "entryOf c = (case c of (result, params, nowMs, nowIso) \<Rightarrow> historyEntry result params nowMs nowIso)"

definition runCall :: "RealTimeDashboard \<Rightarrow> call \<Rightarrow> RealTimeDashboard" where
  "runCall s c =
     (case c of (result, params, nowMs, nowIso) \<Rightarrow> runPrediction (Resolved result) params nowMs nowIso s)"

definition runAll :: "call list \<Rightarrow> RealTimeDashboard \<Rightarrow> RealTimeDashboard" where
  "runAll calls s = foldl runCall s calls"

definition clearHistory :: "RealTimeDashboard \<Rightarrow> RealTimeDashboard" where
  "clearHistory s = s\<lparr> predictionHistory := [], toasts := toasts s @ [''History cleared''] \<rparr>"









text \<open>\<open>startRealTimeMode\<close> and \<open>stopRealTimeMode\<close>.\<close>

definition startRealTimeMode :: "RealTimeDashboard \<Rightarrow> RealTimeDashboard" where
  "startRealTimeMode s =
     (let tid = nextHandle s
      in s\<lparr> isRealTimeMode := True,
            activeIntervals := insert tid (activeIntervals s),
            nextHandle := tid + 1,
            intervalId := Some tid,
            toasts := toasts s @ [''Real-time mode activated''] \<rparr>)"

definition stopRealTimeMode :: "RealTimeDashboard \<Rightarrow> RealTimeDashboard" where
  "stopRealTimeMode s =
     (let s1 = s\<lparr> isRealTimeMode := False \<rparr>;
          s2 = (case intervalId s of
                  Some tid \<Rightarrow> s1\<lparr> activeIntervals := activeIntervals s1 - {tid}, intervalId := None \<rparr>
                | None \<Rightarrow> s1)
      in s2\<lparr> toasts := toasts s2 @ [''Real-time mode deactivated''] \<rparr>)"

text \<open>
  The handler the switch and the button are given at a render:
  \<open>isRealTimeMode ? stopRealTimeMode : startRealTimeMode\<close>.
\<close>

definition toggleHandler :: "RealTimeDashboard \<Rightarrow> RealTimeDashboard" where
  "toggleHandler s = (if isRealTimeMode s then stopRealTimeMode s else startRealTimeMode s)"

text \<open>
  The effect with dependency \<open>[intervalId]\<close>: when a render finds \<open>intervalId\<close> changed, the
  cleanup of the previous render runs and clears the interval that render knew.
\<close>

definition effectCleanup :: "nat option \<Rightarrow> RealTimeDashboard \<Rightarrow> RealTimeDashboard" where
  "effectCleanup previous s =
     (if intervalId s \<noteq> previous
      then (case previous of
              Some tid \<Rightarrow> s\<lparr> activeIntervals := activeIntervals s - {tid} \<rparr>
            | None \<Rightarrow> s)
      else s)"

text \<open>One event: a handler runs on the rendered state, then the component renders again.\<close>

definition dispatch :: "(RealTimeDashboard \<Rightarrow> RealTimeDashboard) \<Rightarrow> RealTimeDashboard \<Rightarrow> RealTimeDashboard" where
  "dispatch handler s = effectCleanup (intervalId s) (handler s)"

section \<open>Concrete inputs\<close>

text \<open>Two random sources: every draw 0, and every draw one half.\<close>

definition noNoise :: "nat \<Rightarrow> real" where
  "noNoise i = 0"

definition halfNoise :: "nat \<Rightarrow> real" where
  "halfNoise i = 1/2"

text \<open>
  The record of the end-to-end scenario: vibrationLevels 75, componentTemperatures 85,
  windSpeed 15, powerFactor 0.88, every other field nominal.
\<close>

definition scenarioRecord :: TurbineParameters where
  "scenarioRecord = defaultParameters\<lparr> vibrationLevels := Num 75, componentTemperatures := Num 85,
     windSpeed := Num 15, powerFactor := Num (fl (88/100)) \<rparr>"

text \<open>Records for the two classification boundaries.\<close>

definition vibrationOnly :: TurbineParameters where
  "vibrationOnly = defaultParameters\<lparr> vibrationLevels := Num 75 \<rparr>"

definition vibrationWindOil :: TurbineParameters where
  "vibrationWindOil = defaultParameters\<lparr> vibrationLevels := Num 75, windSpeed := Num 30,
     gearboxOilCondition := Num 20 \<rparr>"

text \<open>The nominal record with the wind above 25 and the oil condition below 30.\<close>

definition windAndOil :: TurbineParameters where
  "windAndOil = defaultParameters\<lparr> windSpeed := Num 30, gearboxOilCondition := Num 20 \<rparr>"

text \<open>
  The nominal record with the wind above 25, the power factor 0.8 and the oil condition
  below 30; and a random source whose every draw is \<open>2 ^ - 53\<close>.
\<close>

definition windPowerOil :: TurbineParameters where
  "windPowerOil = defaultParameters\<lparr> windSpeed := Num 30, powerFactor := Num (fl (8/10)),
     gearboxOilCondition := Num 20 \<rparr>"

definition tinyNoise :: "nat \<Rightarrow> real" where
  "tinyNoise i = 1 / 2 ^ 53"

text \<open>
  The fault score and the label in the words of the specification, to be compared with
  \<open>faultScore\<close> and \<open>classify\<close>: the score is the sum of the weights 0.30, 0.25, 0.20, 0.15
  and 0.10 of the rules that fired, as decimal numbers; the label is \<open>fault\<close> above 0.6,
  \<open>warning\<close> above 0.3 and \<open>normal\<close> otherwise.
\<close>

definition specFaultScore :: "TurbineParameters \<Rightarrow> real" where
  "specFaultScore p =
     (if vibrationRule p then 30/100 else 0) + (if temperatureRule p then 25/100 else 0)
     + (if windRule p then 20/100 else 0) + (if powerFactorRule p then 15/100 else 0)
     + (if oilRule p then 10/100 else 0)"

definition specLabel :: "real \<Rightarrow> label" where
  "specLabel s = (if 6/10 < s then Fault else if 3/10 < s then Warning else Normal)"

text \<open>The fault score as a function of which rules fired.\<close>

definition scoreOf :: "bool \<Rightarrow> bool \<Rightarrow> bool \<Rightarrow> bool \<Rightarrow> bool \<Rightarrow> real" where
  "scoreOf v t w f g =
     fst (rule g (fl (1/10)) [''Gearbox'']
      (rule f (fl (15/100)) [''Power Electronics'']
        (rule w (fl (2/10)) [''Rotor'', ''Control System'']
          (rule t (fl (25/100)) [''Generator'', ''Power Electronics'']
            (rule v (fl (3/10)) [''Gearbox'', ''Bearings''] (0, []))))))"

text \<open>The nominal record without its \<open>vibrationLevels\<close> property, and with NaN there.\<close>

definition missingVibration :: TurbineParameters where
  "missingVibration = defaultParameters\<lparr> vibrationLevels := Undefined \<rparr>"

definition nanVibration :: TurbineParameters where
  "nanVibration = defaultParameters\<lparr> vibrationLevels := NaN \<rparr>"

text \<open>
  What the data model asks of a record given to the scoring engine: every numeric field is
  present and finite.
\<close>

fun finiteNumber :: "jsval \<Rightarrow> bool" where
  "finiteNumber (Num x) = True"
| "finiteNumber v = False"

definition numericFields :: "TurbineParameters \<Rightarrow> jsval list" where
  "numericFields p =
     [generatorPower p, voltage p, current p, frequency p, powerFactor p, windSpeed p,
      windDirection p, turbulenceIntensity p, airDensity p, temperature p, pressure p,
      humidity p, tipSpeedRatio p, coefficientPerformance p, powerCurve p, capacityFactor p,
      cutInWindSpeed p, ratedWindSpeed p, cutOutWindSpeed p, vibrationLevels p,
      componentTemperatures p, gearboxOilCondition p, noiseLevels p, materialProperties p]"

definition validRecord :: "TurbineParameters \<Rightarrow> bool" where
  "validRecord p = list_all finiteNumber (numericFields p)"
text \<open>Sixty successful predictions of the nominal record, at the clock readings 0 to 59.\<close>

definition sampleCall :: "nat \<Rightarrow> call" where
  "sampleCall k = (mockPrediction defaultParameters noNoise [], defaultParameters, k, [])"

definition sampleCalls :: "call list" where
  "sampleCalls = map sampleCall [0..<60]"










text \<open>
  The events the loop can receive: a direct call of one of the two functions, or a click
  on the switch or the button. \<open>runEvents\<close> handles a list of events, oldest first.
\<close>

datatype event = StartCalled | StopCalled | ToggleClicked

fun handlerOf :: "event \<Rightarrow> RealTimeDashboard \<Rightarrow> RealTimeDashboard" where
  "handlerOf StartCalled = startRealTimeMode"
| "handlerOf StopCalled = stopRealTimeMode"
| "handlerOf ToggleClicked = toggleHandler"

definition handleEvent :: "RealTimeDashboard \<Rightarrow> event \<Rightarrow> RealTimeDashboard" where
  "handleEvent s e = dispatch (handlerOf e) s"

definition runEvents :: "event list \<Rightarrow> RealTimeDashboard \<Rightarrow> RealTimeDashboard" where
  "runEvents es s = foldl handleEvent s es"

text \<open>The part of the state that is the sampling loop.\<close>

definition loopState :: "RealTimeDashboard \<Rightarrow> bool \<times> nat option \<times> nat set" where
  "loopState s = (isRealTimeMode s, intervalId s, activeIntervals s)"

text \<open>Running exactly when a handle is stored, and exactly the stored interval is live.\<close>

definition loopInvariant :: "RealTimeDashboard \<Rightarrow> bool" where
  "loopInvariant s =
     ((isRealTimeMode s \<longleftrightarrow> intervalId s \<noteq> None)
      \<and> activeIntervals s = (case intervalId s of None \<Rightarrow> {} | Some t \<Rightarrow> {t}))"

text \<open>The dashboard after one start from the initial state.\<close>

definition runningDashboard :: RealTimeDashboard where
  "runningDashboard = dispatch startRealTimeMode initialDashboard"

section \<open>Rounding to the nearest double\<close>

lemma rne_cases: "rne x = \<lfloor>x\<rfloor> \<or> rne x = \<lfloor>x\<rfloor> + 1"
  by (simp add: rne_def Let_def)

lemma rne_of_int: "rne (of_int n) = n"
  by (simp add: rne_def Let_def)

lemma rne_mono: "x \<le> y \<Longrightarrow> rne x \<le> rne y"
proof -
  assume xy: "x \<le> y"
  have fxy: "\<lfloor>x\<rfloor> \<le> \<lfloor>y\<rfloor>" using xy by (rule floor_mono)
  show ?thesis
  proof (cases "\<lfloor>x\<rfloor> = \<lfloor>y\<rfloor>")
    case True
    then show ?thesis using xy by (auto simp: rne_def Let_def)
  next
    case False
    then have "\<lfloor>x\<rfloor> + 1 \<le> \<lfloor>y\<rfloor>" using fxy by simp
    moreover have "rne x \<le> \<lfloor>x\<rfloor> + 1" using rne_cases [of x] by auto
    moreover have "\<lfloor>y\<rfloor> \<le> rne y" using rne_cases [of y] by auto
    ultimately show ?thesis by linarith
  qed
qed

lemma rne_nonneg: "0 \<le> x \<Longrightarrow> 0 \<le> rne x"
  using rne_mono [of 0 x] rne_of_int [of 0] by simp

lemma fl_minus: "fl (- x) = - fl x"
  by (simp add: fl_def Let_def sgn_minus)

lemma fl_zero: "fl 0 = 0"
  by (simp add: fl_def)

lemma fl_nonneg: "0 \<le> x \<Longrightarrow> 0 \<le> fl x"
  by (simp add: fl_def Let_def rne_nonneg sgn_real_def)

text \<open>The scaled form for non-negative arguments.\<close>

lemma fl_pos_eq:
  "0 \<le> a \<Longrightarrow> fl a = of_int (rne (a * 2 ^ emin / 2 ^ ulp_exp a)) * 2 ^ ulp_exp a / 2 ^ emin"
proof (cases "a = 0")
  case True
  then show ?thesis using rne_of_int [of 0] by (simp add: fl_def)
next
  case False
  assume "0 \<le> a"
  with False have "0 < a" by simp
  then show ?thesis by (simp add: fl_def Let_def)
qed

lemma ulp_exp_mono: "0 \<le> a \<Longrightarrow> a \<le> b \<Longrightarrow> ulp_exp a \<le> ulp_exp b"
proof -
  assume "0 \<le> a" "a \<le> b"
  then have "\<lfloor>a * 2 ^ emin\<rfloor> \<le> \<lfloor>b * 2 ^ emin\<rfloor>"
    by (intro floor_mono) simp
  then have "bitlen \<lfloor>a * 2 ^ emin\<rfloor> \<le> bitlen \<lfloor>b * 2 ^ emin\<rfloor>"
    by (simp add: bitlen_def floorlog_mono)
  then show ?thesis by (simp add: ulp_exp_def)
qed

lemma scaled_upper:
  assumes "0 \<le> a"
  shows "a * 2 ^ emin / 2 ^ ulp_exp a < 2 ^ 53"
proof -
  let ?n = "\<lfloor>a * 2 ^ emin\<rfloor>"
  have "bitlen ?n \<le> int (ulp_exp a + 53)" by (simp add: ulp_exp_def)
  then have "?n < 2 ^ (ulp_exp a + 53)"
    by (simp add: bitlen_le_iff_power nat_add_distrib)
  then have "a * 2 ^ emin < 2 ^ (ulp_exp a + 53)"
    by (metis floor_less_iff of_int_numeral of_int_power)
  then show ?thesis
    by (simp add: power_add divide_less_eq mult.commute)
qed

lemma scaled_lower:
  assumes "0 < ulp_exp a"
  shows "2 ^ 52 \<le> a * 2 ^ emin / 2 ^ ulp_exp a"
proof -
  let ?n = "\<lfloor>a * 2 ^ emin\<rfloor>"
  have "int (ulp_exp a) + 53 \<le> bitlen ?n" using assms by (simp add: ulp_exp_def)
  then have "2 ^ (ulp_exp a + 52) \<le> ?n"
    by (simp add: bitlen_ge_iff_power nat_add_distrib add.commute)
  then have "2 ^ (ulp_exp a + 52) \<le> a * 2 ^ emin"
    by (metis le_floor_iff of_int_numeral of_int_power)
  then show ?thesis
    by (simp add: power_add le_divide_eq mult.commute)
qed

lemma fl_mono_nonneg:
  assumes "0 \<le> a" "a \<le> b"
  shows "fl a \<le> fl b"
proof -
  let ?ka = "ulp_exp a" and ?kb = "ulp_exp b"
  let ?ma = "rne (a * 2 ^ emin / 2 ^ ?ka)" and ?mb = "rne (b * 2 ^ emin / 2 ^ ?kb)"
  have b0: "0 \<le> b" using assms by simp
  have kk: "?ka \<le> ?kb" using assms by (rule ulp_exp_mono)
  have "real_of_int ?ma * 2 ^ ?ka \<le> real_of_int ?mb * 2 ^ ?kb"
  proof (cases "?ka = ?kb")
    case True
    have "a * 2 ^ emin / 2 ^ ?ka \<le> b * 2 ^ emin / 2 ^ ?ka"
      using assms by (simp add: divide_right_mono)
    then have "?ma \<le> rne (b * 2 ^ emin / 2 ^ ?ka)" by (rule rne_mono)
    then show ?thesis using True by simp
  next
    case False
    then have lt: "?ka < ?kb" using kk by simp
    have "?ma \<le> rne (of_int (2 ^ 53))"
      using scaled_upper [OF assms(1)] by (intro rne_mono) simp
    then have ma: "?ma \<le> 2 ^ 53" by (simp only: rne_of_int)
    have "rne (of_int (2 ^ 52)) \<le> ?mb"
      using scaled_lower [of b] lt by (intro rne_mono) simp
    then have mb: "2 ^ 52 \<le> ?mb" by (simp only: rne_of_int)
    have "real_of_int ?ma * 2 ^ ?ka \<le> 2 ^ 53 * 2 ^ ?ka"
      using ma by (simp add: of_int_le_numeral_power_cancel_iff)
    also have "\<dots> = (2::real) ^ (?ka + 1) * 2 ^ 52"
      by (simp add: power_add)
    also have "\<dots> \<le> 2 ^ ?kb * 2 ^ 52"
      using lt by (intro mult_right_mono power_increasing) simp_all
    also have "\<dots> \<le> real_of_int ?mb * 2 ^ ?kb"
      using mb by (simp add: numeral_power_le_of_int_cancel_iff mult.commute)
    finally show ?thesis .
  qed
  then show ?thesis
    by (simp add: fl_pos_eq [OF assms(1)] fl_pos_eq [OF b0] divide_right_mono)
qed

lemma fl_mono: "x \<le> y \<Longrightarrow> fl x \<le> fl y"
proof -
  assume xy: "x \<le> y"
  consider "0 \<le> x" | "y \<le> 0" | "x < 0" "0 < y" by linarith
  then show ?thesis
  proof cases
    case 1
    then show ?thesis using xy by (rule fl_mono_nonneg)
  next
    case 2
    then have "fl (- y) \<le> fl (- x)" using xy by (intro fl_mono_nonneg) simp_all
    then show ?thesis by (simp add: fl_minus)
  next
    case 3
    then have "0 \<le> fl (- x)" "0 \<le> fl y" by (simp_all add: fl_nonneg)
    then show ?thesis by (simp add: fl_minus)
  qed
qed

text \<open>
  Inside one binade the spacing is known: for \<open>a\<close> between \<open>2 ^ - k\<close> and \<open>2 ^ (1 - k)\<close> it is
  \<open>2 ^ - (k + 52)\<close>. The instances below evaluate \<open>fl\<close> on the literals of the source.
\<close>

lemma fl_binade:
  assumes "1 \<le> a * 2 ^ k" "a * 2 ^ k < 2" "k \<le> 1022"
  shows "fl a = of_int (rne (a * 2 ^ (k + 52))) / 2 ^ (k + 52)"
proof -
  have a0: "0 \<le> a"
  proof (rule ccontr)
    assume "\<not> 0 \<le> a"
    then have "a * 2 ^ k < 0" by (simp add: mult_less_0_iff)
    then show False using assms(1) by simp
  qed
  have e: "(2::real) ^ emin = 2 ^ k * 2 ^ (1074 - k)"
    using assms(3) by (simp flip: power_add add: emin_def)
  let ?n = "\<lfloor>a * 2 ^ emin\<rfloor>"
  have lo: "2 ^ (1074 - k) \<le> a * 2 ^ emin"
  proof -
    have "1 * 2 ^ (1074 - k) \<le> a * 2 ^ k * 2 ^ (1074 - k)"
      using assms(1) by (intro mult_right_mono) simp_all
    then show ?thesis by (simp add: e mult.assoc)
  qed
  have hi: "a * 2 ^ emin < 2 ^ (1075 - k)"
  proof -
    have "a * 2 ^ k * 2 ^ (1074 - k) < 2 * 2 ^ (1074 - k)"
      using assms(2) by (intro mult_strict_right_mono) simp_all
    also have "\<dots> = (2::real) ^ (1075 - k)"
      using assms(3) by (simp flip: power_Suc add: Suc_diff_le)
    finally show ?thesis by (simp add: e mult.assoc)
  qed
  have "2 ^ (1074 - k) \<le> ?n"
    using lo by (metis le_floor_iff of_int_numeral of_int_power)
  then have b1: "int (1075 - k) \<le> bitlen ?n"
    using assms(3) by (simp add: bitlen_ge_iff_power nat_diff_distrib)
  have "?n < 2 ^ (1075 - k)"
    using hi by (metis floor_less_iff of_int_numeral of_int_power)
  then have b2: "bitlen ?n \<le> int (1075 - k)"
    by (simp add: bitlen_le_iff_power)
  have "bitlen ?n = int (1075 - k)" using b1 b2 by simp
  then have u: "ulp_exp a = 1022 - k" using assms(3) by (simp add: ulp_exp_def)
  have q: "(2::real) ^ emin = 2 ^ (1022 - k) * 2 ^ (k + 52)"
    using assms(3) by (simp flip: power_add add: emin_def)
  show ?thesis
    by (simp add: fl_pos_eq [OF a0] u q)
qed

lemma fl_b0: "1 \<le> a \<Longrightarrow> a < 2 \<Longrightarrow> fl a = of_int (rne (a * 2 ^ 52)) / 2 ^ 52"
  using fl_binade [of a 0] by simp

lemma fl_b1: "1/2 \<le> a \<Longrightarrow> a < 1 \<Longrightarrow> fl a = of_int (rne (a * 2 ^ 53)) / 2 ^ 53"
  using fl_binade [of a 1] by simp

lemma fl_b2: "1/4 \<le> a \<Longrightarrow> a < 1/2 \<Longrightarrow> fl a = of_int (rne (a * 2 ^ 54)) / 2 ^ 54"
  using fl_binade [of a 2] by simp

lemma fl_b3: "1/8 \<le> a \<Longrightarrow> a < 1/4 \<Longrightarrow> fl a = of_int (rne (a * 2 ^ 55)) / 2 ^ 55"
  using fl_binade [of a 3] by simp

lemma fl_b4: "1/16 \<le> a \<Longrightarrow> a < 1/8 \<Longrightarrow> fl a = of_int (rne (a * 2 ^ 56)) / 2 ^ 56"
  using fl_binade [of a 4] by simp

lemma fl_b5: "1/32 \<le> a \<Longrightarrow> a < 1/16 \<Longrightarrow> fl a = of_int (rne (a * 2 ^ 57)) / 2 ^ 57"
  using fl_binade [of a 5] by simp

lemma fl_b6: "1/64 \<le> a \<Longrightarrow> a < 1/32 \<Longrightarrow> fl a = of_int (rne (a * 2 ^ 58)) / 2 ^ 58"
  using fl_binade [of a 6] by simp

lemma fl_b7: "1/128 \<le> a \<Longrightarrow> a < 1/64 \<Longrightarrow> fl a = of_int (rne (a * 2 ^ 59)) / 2 ^ 59"
  using fl_binade [of a 7] by simp

lemmas fl_eval = fl_zero fl_b0 fl_b1 fl_b2 fl_b3 fl_b4 fl_b5 fl_b6 fl_b7 rne_def Let_def

text \<open>
  Two checks of the model against well-known doubles: the double written 0.1 is
  3602879701896397 / 2 ^ 55, and 0.1 + 0.2 is not the double written 0.3.
\<close>

lemma fl_one_tenth: "fl (1/10) = 3602879701896397 / 2 ^ 55"
  by (simp add: fl_eval)

lemma fl_tenth_plus_fifth: "fl (fl (1/10) + fl (2/10)) \<noteq> fl (3/10)"
  by (simp add: fl_eval)

section \<open>The scoring engine\<close>

subsection \<open>The fault score\<close>

lemma scoreRules_nest:
  "scoreRules p =
     rule (oilRule p) (fl (1/10)) [''Gearbox'']
      (rule (powerFactorRule p) (fl (15/100)) [''Power Electronics'']
        (rule (windRule p) (fl (2/10)) [''Rotor'', ''Control System'']
          (rule (temperatureRule p) (fl (25/100)) [''Generator'', ''Power Electronics'']
            (rule (vibrationRule p) (fl (3/10)) [''Gearbox'', ''Bearings''] (0, [])))))"
  by (simp only: scoreRules_def Let_def)

lemma faultScore_scoreOf:
  "faultScore p =
     scoreOf (vibrationRule p) (temperatureRule p) (windRule p) (powerFactorRule p) (oilRule p)"
  by (simp only: faultScore_def scoreRules_nest scoreOf_def)

lemma scoreOf_bounds: "scoreOf v t w f g \<le> 1 \<and> fl (scoreOf v t w f g) = scoreOf v t w f g"
  by (cases v; cases t; cases w; cases f; cases g;
      simp only: scoreOf_def rule_def if_True if_False fst_conv snd_conv; simp add: fl_eval)

lemma faultScore_le_1: "faultScore p \<le> 1"
  by (simp only: faultScore_scoreOf scoreOf_bounds)

lemma faultScore_fl: "fl (faultScore p) = faultScore p"
  by (simp only: faultScore_scoreOf scoreOf_bounds)

subsection \<open>Concrete records\<close>

lemmas rule_defs = vibrationRule_def temperatureRule_def windRule_def powerFactorRule_def
  oilRule_def js_gt_def js_lt_def

lemma literal_values:
  "fl (fl (3/10)) = fl (3/10)"
  "\<not> fl (22/25) < fl (17/20)"
  "\<not> fl (19/20) < fl (17/20)"
  "fl (fl (fl (3/10) + fl (1/5)) + fl (1/10)) = fl (3/5)"
  "fl (3/10) < fl (3/5)"
  "fl (3/5) < fl (61/100)"
  "fl (3/10) \<noteq> fl (9/20)"
  "\<not> fl (3/5) < fl (3/10)"
  by (simp_all add: fl_eval)

lemma setOrder_eval:
  "setOrder [] = []"
  "setOrder [''Gearbox'', ''Bearings''] = [''Gearbox'', ''Bearings'']"
  "setOrder [''Gearbox'', ''Bearings'', ''Rotor'', ''Control System'', ''Gearbox''] =
     [''Gearbox'', ''Bearings'', ''Rotor'', ''Control System'']"
  by (simp_all add: setOrder_def)

lemma classify_boundaries:
  "classify (fl (3/5)) = Warning" "classify (fl (3/10)) = Normal" "classify (fl (61/100)) = Fault"
  by (simp_all add: classify_def literal_values)

lemma scoreRules_vibration_only:
  assumes "vibrationRule p" "\<not> temperatureRule p" "\<not> windRule p" "\<not> powerFactorRule p"
    "\<not> oilRule p"
  shows "scoreRules p = (fl (3/10), [''Gearbox'', ''Bearings''])"
  using assms by (simp add: scoreRules_nest rule_def literal_values)

lemma scoreRules_none:
  assumes "\<not> vibrationRule p" "\<not> temperatureRule p" "\<not> windRule p" "\<not> powerFactorRule p"
    "\<not> oilRule p"
  shows "scoreRules p = (0, [])"
  using assms by (simp add: scoreRules_nest rule_def)

subsection \<open>The accumulator and the decimal sum of the weights\<close>

text \<open>
  The accumulator adds the doubles nearest to the decimal weights and rounds after each
  addition, so it need not be the decimal sum. It is never further from it than
  \<open>2 ^ - 53\<close>; and the label computed from it is the label of the decimal sum except when
  exactly the wind rule and the oil rule fired.
\<close>

lemma scoreOf_near_decimal_sum:
  "\<bar>scoreOf v t w f g
      - ((if v then 30/100 else 0) + (if t then 25/100 else 0) + (if w then 20/100 else 0)
         + (if f then 15/100 else 0) + (if g then 10/100 else 0))\<bar> \<le> 1 / 2 ^ 53"
  by (cases v; cases t; cases w; cases f; cases g;
      simp only: scoreOf_def rule_def if_True if_False fst_conv snd_conv; simp add: fl_eval)

lemma faultScore_near_specFaultScore: "\<bar>faultScore p - specFaultScore p\<bar> \<le> 1 / 2 ^ 53"
  by (simp only: faultScore_scoreOf specFaultScore_def scoreOf_near_decimal_sum)

lemma classify_scoreOf:
  "\<not> (\<not> v \<and> \<not> t \<and> w \<and> \<not> f \<and> g) \<Longrightarrow>
     classify (scoreOf v t w f g)
       = specLabel ((if v then 30/100 else 0) + (if t then 25/100 else 0)
           + (if w then 20/100 else 0) + (if f then 15/100 else 0) + (if g then 10/100 else 0))"
  by (cases v; cases t; cases w; cases f; cases g;
      simp only: scoreOf_def rule_def if_True if_False fst_conv snd_conv;
      simp add: classify_def specLabel_def fl_eval)

lemma label_agrees_with_specLabel:
  assumes "\<not> (\<not> vibrationRule p \<and> \<not> temperatureRule p \<and> windRule p
              \<and> \<not> powerFactorRule p \<and> oilRule p)"
  shows "prediction (mockPrediction p rnd now) = specLabel (specFaultScore p)"
proof -
  have "prediction (mockPrediction p rnd now) = classify (faultScore p)"
    by (simp add: mockPrediction_def)
  also have "\<dots> = specLabel (specFaultScore p)"
    using classify_scoreOf [OF assms] by (simp only: faultScore_scoreOf specFaultScore_def)
  finally show ?thesis .
qed

text \<open>
  C1, as the code has it. A power factor of 0.88 is not below 0.85, so only the vibration
  rule fires: the fault score is 0.3, which is not above 0.3, the label is \<open>normal\<close> and
  the affected components are Gearbox and Bearings.
\<close>

theorem scenario_scores_normal:
  assumes "vibrationLevels p = Num 75" and "componentTemperatures p = Num 85"
    and "windSpeed p = Num 15" and "powerFactor p = Num (fl (88/100))"
    and "gearboxOilCondition p = Num oil" and "30 \<le> oil"
  shows "faultScore p = fl (3/10)
         \<and> prediction (mockPrediction p rnd now) = Normal
         \<and> affectedComponents (mockPrediction p rnd now) = [''Gearbox'', ''Bearings'']"
proof -
  have "vibrationRule p" "\<not> temperatureRule p" "\<not> windRule p" "\<not> powerFactorRule p"
    "\<not> oilRule p"
    using assms by (simp_all add: rule_defs literal_values)
  then have "scoreRules p = (fl (3/10), [''Gearbox'', ''Bearings''])"
    by (rule scoreRules_vibration_only)
  then show ?thesis
    by (simp add: faultScore_def mockPrediction_def classify_boundaries setOrder_eval)
qed

theorem scenario_scores_normal_witness:
  "vibrationLevels scenarioRecord = Num 75 \<and> componentTemperatures scenarioRecord = Num 85
   \<and> windSpeed scenarioRecord = Num 15 \<and> powerFactor scenarioRecord = Num (fl (88/100))
   \<and> gearboxOilCondition scenarioRecord = Num 85 \<and> (30::real) \<le> 85
   \<and> faultScore scenarioRecord = fl (3/10)
   \<and> prediction (mockPrediction scenarioRecord noNoise []) = Normal
   \<and> affectedComponents (mockPrediction scenarioRecord noNoise []) = [''Gearbox'', ''Bearings'']"
  using scenario_scores_normal [of scenarioRecord 85 noNoise "[]"]
  by (simp add: scenarioRecord_def defaultParameters_def)

text \<open>
  C1 as stated fails on the scenario record: the fault score is not 0.45, the label is not
  \<open>warning\<close> and Power Electronics is not among the affected components.
\<close>

theorem scenario_counterexample:
  "faultScore scenarioRecord \<noteq> fl (45/100)
   \<and> prediction (mockPrediction scenarioRecord noNoise []) \<noteq> Warning
   \<and> affectedComponents (mockPrediction scenarioRecord noNoise [])
       \<noteq> [''Gearbox'', ''Bearings'', ''Power Electronics'']"
proof -
  have "vibrationRule scenarioRecord" "\<not> temperatureRule scenarioRecord"
    "\<not> windRule scenarioRecord" "\<not> powerFactorRule scenarioRecord" "\<not> oilRule scenarioRecord"
    by (simp_all add: rule_defs literal_values scenarioRecord_def defaultParameters_def)
  then have "scoreRules scenarioRecord = (fl (3/10), [''Gearbox'', ''Bearings''])"
    by (rule scoreRules_vibration_only)
  then show ?thesis
    by (simp add: faultScore_def mockPrediction_def classify_boundaries setOrder_eval literal_values)
qed

subsection \<open>Records with missing or non-finite fields\<close>

lemma nan_compares_false: "toNumber v = NaN \<Longrightarrow> \<not> js_gt v c \<and> \<not> js_lt v c"
  by (cases "toNumber c") (simp_all add: js_gt_def js_lt_def)

text \<open>
  C2, as the code has it. \<open>mockPrediction\<close> checks nothing and \<open>predict\<close> always resolves
  with a response; a rule whose field is missing or NaN does not fire, since every
  comparison with NaN is false.
\<close>

theorem invalid_record_is_scored:
  "(\<exists>delay r. predict h p rnd now = (delay, Resolved r))
   \<and> (toNumber (vibrationLevels p) = NaN \<longrightarrow> \<not> vibrationRule p)
   \<and> (toNumber (componentTemperatures p) = NaN \<longrightarrow> \<not> temperatureRule p)
   \<and> (toNumber (windSpeed p) = NaN \<longrightarrow> \<not> windRule p)
   \<and> (toNumber (powerFactor p) = NaN \<longrightarrow> \<not> powerFactorRule p)
   \<and> (toNumber (gearboxOilCondition p) = NaN \<longrightarrow> \<not> oilRule p)"
proof -
  have "\<exists>delay r. predict h p rnd now = (delay, Resolved r)"
    by (simp add: predict_def split: sum.split)
  then show ?thesis
    using nan_compares_false
    by (simp add: vibrationRule_def temperatureRule_def windRule_def powerFactorRule_def oilRule_def)
qed

theorem invalid_record_is_scored_witness:
  "predict ConnectionFailed missingVibration noNoise [] =
     (1500, Resolved (mockPrediction missingVibration noNoise []))
   \<and> toNumber (vibrationLevels missingVibration) = NaN
   \<and> \<not> vibrationRule missingVibration"
proof -
  have n: "toNumber (vibrationLevels missingVibration) = NaN"
    by (simp add: missingVibration_def)
  have "predict ConnectionFailed missingVibration noNoise [] =
     (1500, Resolved (mockPrediction missingVibration noNoise []))"
    by (simp add: predict_def axios_post_def)
  then show ?thesis
    using invalid_record_is_scored [of ConnectionFailed missingVibration noNoise "[]"] n
    by simp
qed

text \<open>
  C2 as stated fails: the nominal record without its \<open>vibrationLevels\<close> property is not a
  valid record, and it is given the verdict \<open>normal\<close> with fault score 0, the verdict of the
  nominal record itself; so is the record with NaN there.
\<close>

theorem invalid_record_counterexample:
  "\<not> validRecord missingVibration
   \<and> predict ConnectionFailed missingVibration noNoise [] =
       (1500, Resolved (mockPrediction defaultParameters noNoise []))
   \<and> \<not> validRecord nanVibration
   \<and> predict ConnectionFailed nanVibration noNoise [] =
       (1500, Resolved (mockPrediction defaultParameters noNoise []))
   \<and> prediction (mockPrediction defaultParameters noNoise []) = Normal
   \<and> faultScore missingVibration = 0"
proof -
  have d: "\<not> vibrationRule defaultParameters" "\<not> temperatureRule defaultParameters"
    "\<not> windRule defaultParameters" "\<not> powerFactorRule defaultParameters"
    "\<not> oilRule defaultParameters"
    by (simp_all add: rule_defs literal_values defaultParameters_def)
  have m: "\<not> vibrationRule missingVibration" "\<not> temperatureRule missingVibration"
    "\<not> windRule missingVibration" "\<not> powerFactorRule missingVibration"
    "\<not> oilRule missingVibration"
    by (simp_all add: rule_defs literal_values missingVibration_def defaultParameters_def)
  have n: "\<not> vibrationRule nanVibration" "\<not> temperatureRule nanVibration"
    "\<not> windRule nanVibration" "\<not> powerFactorRule nanVibration"
    "\<not> oilRule nanVibration"
    by (simp_all add: rule_defs literal_values nanVibration_def defaultParameters_def)
  have v: "\<not> validRecord missingVibration" "\<not> validRecord nanVibration"
    by (simp_all add: validRecord_def numericFields_def missingVibration_def nanVibration_def)
  have s: "scoreRules defaultParameters = (0, [])" "scoreRules missingVibration = (0, [])"
    "scoreRules nanVibration = (0, [])"
    using d m n by (simp_all add: scoreRules_none)
  have e: "mockPrediction missingVibration noNoise [] = mockPrediction defaultParameters noNoise []"
    "mockPrediction nanVibration noNoise [] = mockPrediction defaultParameters noNoise []"
    using d m n s by (simp_all add: mockPrediction_def mockShapValues_def faultScore_def)
  show ?thesis
    using v e s
    by (simp add: predict_def axios_post_def mockPrediction_def faultScore_def classify_def fl_eval)
qed

subsection \<open>The probability\<close>

text \<open>
  The probability is never below the accumulator and never above 1, whatever the draw in
  the half-open interval from 0 to 1.
\<close>

lemma probability_above_accumulator:
  assumes "0 \<le> rnd 2" and "rnd 2 < 1"
  shows "faultScore p \<le> probability (mockPrediction p rnd now)
         \<and> probability (mockPrediction p rnd now) \<le> 1"
proof -
  have "0 \<le> rnd 2 * fl (1/10)"
    using assms(1) fl_nonneg [of "1/10"] by simp
  then have "0 \<le> fl (rnd 2 * fl (1/10))" by (rule fl_nonneg)
  then have "fl (faultScore p) \<le> fl (faultScore p + fl (rnd 2 * fl (1/10)))"
    by (intro fl_mono) simp
  then have "faultScore p \<le> fl (faultScore p + fl (rnd 2 * fl (1/10)))"
    by (simp only: faultScore_fl)
  then show ?thesis
    using faultScore_le_1 [of p] by (simp add: mockPrediction_def)
qed

lemma fl_b57: "1 / 2 ^ 57 \<le> a \<Longrightarrow> a < 1 / 2 ^ 56 \<Longrightarrow> fl a = of_int (rne (a * 2 ^ 109)) / 2 ^ 109"
  using fl_binade [of a 57] by simp

lemma windPowerOil_rules:
  "\<not> vibrationRule windPowerOil" "\<not> temperatureRule windPowerOil" "windRule windPowerOil"
  "powerFactorRule windPowerOil" "oilRule windPowerOil"
  by (simp_all add: rule_defs windPowerOil_def defaultParameters_def fl_eval)

lemma faultScore_windPowerOil: "faultScore windPowerOil = 2026619832316723 / 2 ^ 52"
  using windPowerOil_rules by (simp add: faultScore_def scoreRules_nest rule_def fl_eval)

text \<open>
  C3. The claim bounds the probability from below by the sum of the weights of the rules
  that fired. On the nominal record with wind speed 30, power factor 0.8 and oil condition
  20 the wind, power factor and oil rules fire and the sum of their weights is 0.45. The
  accumulator there is 0.2 + 0.15 + 0.1 in double arithmetic, the double just below the
  double 0.45, and with a draw of 0, or of \<open>2 ^ - 53\<close>, the probability returned is that
  same double: it is below the sum of the weights.
\<close>

theorem probability_below_rule_sum:
  "specFaultScore windPowerOil = 45/100
   \<and> probability (mockPrediction windPowerOil noNoise []) = 2026619832316723 / 2 ^ 52
   \<and> probability (mockPrediction windPowerOil noNoise []) < specFaultScore windPowerOil
   \<and> probability (mockPrediction windPowerOil tinyNoise []) = 2026619832316723 / 2 ^ 52
   \<and> probability (mockPrediction windPowerOil tinyNoise []) < specFaultScore windPowerOil"
proof -
  have s: "specFaultScore windPowerOil = 45/100"
    using windPowerOil_rules by (simp add: specFaultScore_def)
  have z: "probability (mockPrediction windPowerOil noNoise []) = 2026619832316723 / 2 ^ 52"
    by (simp add: mockPrediction_def faultScore_windPowerOil noNoise_def fl_eval)
  have n: "fl (1 / 2 ^ 53 * fl (1/10)) = 3602879701896397 / 2 ^ 108"
    by (simp add: fl_eval fl_b57)
  have t: "probability (mockPrediction windPowerOil tinyNoise []) = 2026619832316723 / 2 ^ 52"
    by (simp only: mockPrediction_def faultScore_windPowerOil tinyNoise_def n
        PredictionResponse.simps) (simp add: fl_eval)
  show ?thesis
    by (simp add: s z t)
qed

subsection \<open>The label\<close>

text \<open>
  The label as a function of the accumulator: \<open>fault\<close> exactly when it is above the double
  0.6, \<open>warning\<close> exactly when it is above the double 0.3 and at most the double 0.6,
  \<open>normal\<close> otherwise.
\<close>

lemma label_of_accumulator:
  "(prediction (mockPrediction p rnd now) = Fault \<longleftrightarrow> fl (6/10) < faultScore p)
   \<and> (prediction (mockPrediction p rnd now) = Warning
        \<longleftrightarrow> fl (3/10) < faultScore p \<and> faultScore p \<le> fl (6/10))
   \<and> (prediction (mockPrediction p rnd now) = Normal \<longleftrightarrow> faultScore p \<le> fl (3/10))"
proof -
  have lt: "fl (3/10) < fl (3/5)" by (rule literal_values(5))
  have p: "prediction (mockPrediction p rnd now) = classify (faultScore p)"
    by (simp add: mockPrediction_def)
  have "(classify (faultScore p) = Fault \<longleftrightarrow> fl (3/5) < faultScore p)
    \<and> (classify (faultScore p) = Warning \<longleftrightarrow> fl (3/10) < faultScore p \<and> faultScore p \<le> fl (3/5))
    \<and> (classify (faultScore p) = Normal \<longleftrightarrow> faultScore p \<le> fl (3/10))"
    using lt by (auto simp add: classify_def)
  then show ?thesis
    by (simp add: p)
qed

lemma windAndOil_rules:
  "\<not> vibrationRule windAndOil" "\<not> temperatureRule windAndOil" "windRule windAndOil"
  "\<not> powerFactorRule windAndOil" "oilRule windAndOil"
  by (simp_all add: rule_defs literal_values windAndOil_def defaultParameters_def)

lemma vibrationOnly_rules:
  "vibrationRule vibrationOnly" "\<not> temperatureRule vibrationOnly" "\<not> windRule vibrationOnly"
  "\<not> powerFactorRule vibrationOnly" "\<not> oilRule vibrationOnly"
  by (simp_all add: rule_defs literal_values vibrationOnly_def defaultParameters_def)

text \<open>
  C4. The claim gives every record whose fault score is 0.3 the label \<open>normal\<close>. On the
  nominal record with wind speed 30 and oil condition 20 only the wind rule and the oil
  rule fire, the sum of their weights is 0.2 + 0.1 = 0.3 and the specification's label is
  \<open>normal\<close>; the accumulator is 0.2 + 0.1 in double arithmetic, the double just above the
  double 0.3, and the label returned is \<open>warning\<close>. The nominal record with vibration 75
  has the same sum 0.3 from the vibration rule alone and is labelled \<open>normal\<close>.
\<close>

theorem tie_at_three_tenths_labelled_warning:
  "specFaultScore windAndOil = 3/10
   \<and> specLabel (specFaultScore windAndOil) = Normal
   \<and> faultScore windAndOil = 1351079888211149 / 2 ^ 52
   \<and> fl (3/10) = 5404319552844595 / 2 ^ 54
   \<and> prediction (mockPrediction windAndOil noNoise []) = Warning
   \<and> specFaultScore vibrationOnly = 3/10
   \<and> faultScore vibrationOnly = fl (3/10)
   \<and> prediction (mockPrediction vibrationOnly noNoise []) = Normal"
proof -
  have s: "specFaultScore windAndOil = 3/10" "specFaultScore vibrationOnly = 3/10"
    using windAndOil_rules vibrationOnly_rules by (simp_all add: specFaultScore_def)
  have a: "faultScore windAndOil = 1351079888211149 / 2 ^ 52"
    using windAndOil_rules by (simp add: faultScore_def scoreRules_nest rule_def fl_eval)
  have l: "fl (3/10) = 5404319552844595 / 2 ^ 54"
    by (simp add: fl_eval)
  have w: "prediction (mockPrediction windAndOil noNoise []) = Warning"
    by (simp add: mockPrediction_def classify_def a fl_eval)
  have v: "faultScore vibrationOnly = fl (3/10)"
    using scoreRules_vibration_only [OF vibrationOnly_rules] by (simp add: faultScore_def)
  have n: "prediction (mockPrediction vibrationOnly noNoise []) = Normal"
    by (simp add: mockPrediction_def v classify_boundaries)
  show ?thesis
    using s a w v n by (simp add: specLabel_def l)
qed

subsection \<open>The attribution map\<close>






section \<open>The dispatcher\<close>

text \<open>
  C5. When the request fails (no response within the timeout, no connection, or a status
  outside 200 to 299), \<open>predict\<close> resolves, after the 1500 ms of its timer, with exactly the
  response \<open>mockPrediction\<close> computes for the record from the same random source and clock;
  and \<open>predict\<close> never rejects.
\<close>

theorem predict_falls_back:
  "(h = NoResponseInTime \<or> h = ConnectionFailed
      \<or> (\<exists>status body. h = Response status body \<and> (status < 200 \<or> 300 \<le> status))
     \<longrightarrow> predict h p rnd now = (1500, Resolved (mockPrediction p rnd now)))
   \<and> (\<forall>e. snd (predict h p rnd now) \<noteq> Rejected e)"
  by (cases h) (auto simp add: predict_def axios_post_def)

theorem predict_falls_back_witness:
  "predict (Response 503 (mockPrediction defaultParameters noNoise [])) scenarioRecord halfNoise []
     = (1500, Resolved (mockPrediction scenarioRecord halfNoise []))
   \<and> predict NoResponseInTime scenarioRecord halfNoise []
     = (1500, Resolved (mockPrediction scenarioRecord halfNoise []))"
  using predict_falls_back [of "Response 503 (mockPrediction defaultParameters noNoise [])"
      scenarioRecord halfNoise "[]"]
    predict_falls_back [of NoResponseInTime scenarioRecord halfNoise "[]"]
  by simp

section \<open>The history\<close>

lemma take_append_take: "take n (xs @ take n ys) = take n (xs @ ys)"
  by (simp add: min_def)

lemma pushHistory_take: "pushHistory e h = take 50 (e # h)"
  by (simp add: pushHistory_def take_Cons')

lemma history_runCall: "predictionHistory (runCall s c) = pushHistory (entryOf c) (predictionHistory s)"
  by (cases c) (simp add: runCall_def runPrediction_def entryOf_def)

lemma history_runAll:
  "predictionHistory (runAll calls s) = take 50 (rev (map entryOf calls) @ predictionHistory s)"
  if "length (predictionHistory s) \<le> 50"
  using that
proof (induction calls arbitrary: s)
  case Nil
  then show ?case by (simp add: runAll_def)
next
  case (Cons c calls)
  have l: "length (predictionHistory (runCall s c)) \<le> 50"
    by (simp add: history_runCall pushHistory_take)
  have "predictionHistory (runAll (c # calls) s) = predictionHistory (runAll calls (runCall s c))"
    by (simp add: runAll_def)
  also have "\<dots> = take 50 (rev (map entryOf calls) @ take 50 (entryOf c # predictionHistory s))"
    using Cons.IH [OF l] by (simp only: history_runCall pushHistory_take)
  also have "\<dots> = take 50 (rev (map entryOf calls) @ entryOf c # predictionHistory s)"
    by (rule take_append_take)
  finally show ?case by simp
qed

text \<open>
  C6. After any run of predictions from the empty history, the history holds the 50 most
  recent entries (all of them when there are fewer), so 60 predictions leave exactly 50;
  and a prediction that arrives when the history is full drops the oldest entry, the last
  of the list.
\<close>

theorem history_holds_50_newest:
  "predictionHistory (runAll calls initialDashboard) = take 50 (rev (map entryOf calls))
   \<and> length (predictionHistory (runAll calls initialDashboard)) = min (length calls) 50
   \<and> (length calls = 60 \<longrightarrow> length (predictionHistory (runAll calls initialDashboard)) = 50)
   \<and> (length (predictionHistory s) = 50 \<longrightarrow>
        predictionHistory (runPrediction (Resolved r) p nowMs nowIso s) =
          historyEntry r p nowMs nowIso # butlast (predictionHistory s))"
proof -
  have h: "predictionHistory (runAll calls initialDashboard) = take 50 (rev (map entryOf calls))"
    using history_runAll [of initialDashboard calls] by (simp add: initialDashboard_def)
  have b: "predictionHistory (runPrediction (Resolved r) p nowMs nowIso s) =
          historyEntry r p nowMs nowIso # butlast (predictionHistory s)"
    if "length (predictionHistory s) = 50"
    using that by (simp add: runPrediction_def pushHistory_def butlast_conv_take)
  show ?thesis
    using b by (simp add: h)
qed

theorem history_holds_50_newest_witness:
  "length sampleCalls = 60
   \<and> length (predictionHistory (runAll sampleCalls initialDashboard)) = 50
   \<and> map entry_id (predictionHistory (runAll sampleCalls initialDashboard))
       = map digits (rev [10..<60])"
proof -
  have l: "length sampleCalls = 60" by (simp add: sampleCalls_def)
  have i: "entry_id \<circ> (entryOf \<circ> sampleCall) = digits"
    by (rule ext) (simp add: entryOf_def sampleCall_def historyEntry_def)
  have "take 50 (rev (map entryOf sampleCalls)) = rev (drop 10 (map entryOf sampleCalls))"
    by (simp add: take_rev l)
  also have "drop 10 (map entryOf sampleCalls) = map (entryOf \<circ> sampleCall) [0 + 10..<60]"
    by (simp only: sampleCalls_def drop_map map_map drop_upt)
  finally have "map entry_id (take 50 (rev (map entryOf sampleCalls)))
      = map (entry_id \<circ> (entryOf \<circ> sampleCall)) (rev [0 + 10..<60])"
    by (simp only: rev_map map_map)
  then have "map entry_id (take 50 (rev (map entryOf sampleCalls))) = map digits (rev [10..<60])"
    by (simp only: i add_0)
  then show ?thesis
    using history_holds_50_newest [of sampleCalls] l by simp
qed

section \<open>The export\<close>

subsection \<open>Decimal digits\<close>








subsection \<open>\<open>toFixed\<close> on a number below \<open>10 ^ 21\<close>\<close>




subsection \<open>The exported text\<close>






section \<open>The order of the history\<close>




section \<open>The sampling loop\<close>

lemma loopInvariant_step: "loopInvariant s \<Longrightarrow> loopInvariant (handleEvent s e)"
  by (cases e; cases "intervalId s")
    (auto simp add: loopInvariant_def handleEvent_def dispatch_def effectCleanup_def
      startRealTimeMode_def stopRealTimeMode_def toggleHandler_def Let_def)

lemma loopInvariant_runEvents: "loopInvariant s \<Longrightarrow> loopInvariant (runEvents es s)"
proof (induction es arbitrary: s)
  case Nil
  then show ?case by (simp add: runEvents_def)
next
  case (Cons e es)
  have "loopInvariant (handleEvent s e)" using Cons.prems by (rule loopInvariant_step)
  then have "loopInvariant (runEvents es (handleEvent s e))" by (rule Cons.IH)
  then show ?case by (simp add: runEvents_def)
qed

lemma stop_while_idle:
  "\<not> isRealTimeMode s \<Longrightarrow> intervalId s = None \<Longrightarrow>
     loopState (dispatch stopRealTimeMode s) = loopState s"
  by (simp add: loopState_def dispatch_def effectCleanup_def stopRealTimeMode_def Let_def)

text \<open>
  C9, as the code has it. The loop has two states, told apart by \<open>isRealTimeMode\<close>; after
  any events from the initial state it is running exactly when a handle is stored, and
  then exactly the stored interval is live. The switch and the button call
  \<open>stopRealTimeMode\<close> when the loop is running and \<open>startRealTimeMode\<close> when it is not.
  Stopping an idle loop leaves the loop as it is. \<open>startRealTimeMode\<close> has no guard of
  its own: called on a running loop it schedules a new interval and stores the new handle,
  and the interval scheduled before is cleared when the component renders again.
\<close>

theorem loop_two_states:
  "loopInvariant (runEvents es initialDashboard)
   \<and> toggleHandler s = (if isRealTimeMode s then stopRealTimeMode s else startRealTimeMode s)
   \<and> (\<not> isRealTimeMode (runEvents es initialDashboard) \<longrightarrow>
        loopState (dispatch stopRealTimeMode (runEvents es initialDashboard))
          = loopState (runEvents es initialDashboard))
   \<and> (isRealTimeMode s \<longrightarrow>
        isRealTimeMode (dispatch startRealTimeMode s)
        \<and> intervalId (dispatch startRealTimeMode s) = Some (nextHandle s)
        \<and> nextHandle s \<in> activeIntervals (dispatch startRealTimeMode s)
        \<and> (\<forall>t. intervalId s = Some t \<and> t \<noteq> nextHandle s \<longrightarrow>
              t \<notin> activeIntervals (dispatch startRealTimeMode s)))"
proof -
  have i: "loopInvariant (runEvents es initialDashboard)"
    by (rule loopInvariant_runEvents) (simp add: loopInvariant_def initialDashboard_def)
  have t: "toggleHandler s = (if isRealTimeMode s then stopRealTimeMode s else startRealTimeMode s)"
    by (simp add: toggleHandler_def)
  have p: "loopState (dispatch stopRealTimeMode (runEvents es initialDashboard))
          = loopState (runEvents es initialDashboard)"
    if "\<not> isRealTimeMode (runEvents es initialDashboard)"
    using that i by (intro stop_while_idle) (simp_all add: loopInvariant_def)
  have u: "isRealTimeMode (dispatch startRealTimeMode s)
        \<and> intervalId (dispatch startRealTimeMode s) = Some (nextHandle s)
        \<and> nextHandle s \<in> activeIntervals (dispatch startRealTimeMode s)
        \<and> (\<forall>t. intervalId s = Some t \<and> t \<noteq> nextHandle s \<longrightarrow>
              t \<notin> activeIntervals (dispatch startRealTimeMode s))"
    by (cases "intervalId s")
      (auto simp add: dispatch_def effectCleanup_def startRealTimeMode_def Let_def)
  show ?thesis
    using i t p u by blast
qed

theorem loop_two_states_witness:
  "loopInvariant (runEvents [ToggleClicked, StopCalled, StopCalled, StartCalled, StartCalled] initialDashboard)
   \<and> loopState (runEvents [ToggleClicked, StopCalled] initialDashboard) = (False, None, {})
   \<and> loopState (runEvents [ToggleClicked, StopCalled, StopCalled] initialDashboard) = (False, None, {})
   \<and> isRealTimeMode runningDashboard
   \<and> loopState (dispatch startRealTimeMode runningDashboard) = (True, Some 2, {2})"
proof -
  have a: "loopState (runEvents [ToggleClicked, StopCalled] initialDashboard) = (False, None, {})"
    by (simp add: runEvents_def handleEvent_def dispatch_def effectCleanup_def toggleHandler_def
        startRealTimeMode_def stopRealTimeMode_def initialDashboard_def loopState_def Let_def)
  have b: "runEvents [ToggleClicked, StopCalled, StopCalled] initialDashboard
      = dispatch stopRealTimeMode (runEvents [ToggleClicked, StopCalled] initialDashboard)"
    by (simp add: runEvents_def handleEvent_def)
  have r: "isRealTimeMode runningDashboard" "nextHandle runningDashboard = 2"
    "intervalId runningDashboard = Some 1"
    by (simp_all add: runningDashboard_def dispatch_def effectCleanup_def startRealTimeMode_def
        initialDashboard_def Let_def)
  have c: "activeIntervals (dispatch startRealTimeMode runningDashboard) = {2}"
    by (auto simp add: runningDashboard_def dispatch_def effectCleanup_def startRealTimeMode_def
        initialDashboard_def Let_def)
  show ?thesis
    using loop_two_states [of "[ToggleClicked, StopCalled, StopCalled, StartCalled, StartCalled]"
        runningDashboard]
      loop_two_states [of "[ToggleClicked, StopCalled]" runningDashboard] a b r c
    by (simp add: loopState_def)
qed

text \<open>
  C9 as stated fails: a start on the running dashboard is not a no-op. It schedules a
  second interval beside the live one, and after the next render the interval that was
  live is gone and another handle is stored.
\<close>

theorem start_while_running_counterexample:
  "isRealTimeMode runningDashboard
   \<and> activeIntervals runningDashboard = {1}
   \<and> activeIntervals (startRealTimeMode runningDashboard) = {1, 2}
   \<and> activeIntervals (dispatch startRealTimeMode runningDashboard) = {2}
   \<and> intervalId (dispatch startRealTimeMode runningDashboard) \<noteq> intervalId runningDashboard
   \<and> loopState (dispatch startRealTimeMode runningDashboard) \<noteq> loopState runningDashboard"
  by (auto simp add: runningDashboard_def dispatch_def effectCleanup_def startRealTimeMode_def
      initialDashboard_def loopState_def Let_def)

end
